theory Spec2Isabelle
  imports Main "HOL-Library.Sublist"
begin

section \<open>The books table\<close>

text \<open>
  \<^verbatim>\<open>LibraryDatabase\<close> (database.py) keeps one SQLite table:
  \<^verbatim>\<open>
  CREATE TABLE IF NOT EXISTS books (
      id INTEGER PRIMARY KEY AUTOINCREMENT,
      title TEXT NOT NULL,
      author TEXT NOT NULL,
      genre TEXT,
      description TEXT,
      available INTEGER DEFAULT 1)
  \<close>
  A fetched row is the tuple \<open>(id, title, author, genre, description, available)\<close>;
  \<open>book[5]\<close> in \<^verbatim>\<open>borrow_book\<close> is the field \<open>available\<close>. The text columns hold Python
  \<open>str\<close> values, the integer columns Python \<open>int\<close> values, and a nullable column holds
  \<open>None\<close> for SQL NULL. \<open>title\<close> and \<open>author\<close> are NOT NULL, so a stored row always has them.
  Arguments are values of these kinds: a \<open>str\<close> or \<open>None\<close> for a text column, an \<open>int\<close> (within
  the 64 bits of an SQLite integer) or \<open>None\<close> for \<open>available\<close>, an \<open>int\<close> for an id.
\<close>

record book =
  row_id :: int
  title :: string
  author :: string
  genre :: "string option"
  description :: "string option"
  available :: "int option"

text \<open>
  The database file: the rows of \<open>books\<close> in rowid order (the order of \<^verbatim>\<open>SELECT *\<close>), and the
  counter that AUTOINCREMENT keeps in \<open>sqlite_sequence\<close> (the largest id ever assigned).
\<close>

record db =
  rows :: "book list"
  seq :: int

text \<open>
  The exceptions a call can end in: TypeError when a parameter without a default value is
  left out of the call, IntegrityError when an INSERT violates a NOT NULL constraint.
\<close>

datatype error = TypeError | IntegrityError

text \<open>
  The file after \<^verbatim>\<open>create_table\<close> has run on a new file (\<^verbatim>\<open>CREATE TABLE IF NOT EXISTS\<close>: on
  an existing file it changes nothing).
\<close>

definition empty_db :: db where
  "empty_db = \<lparr>rows = [], seq = 0\<rparr>"

text \<open>An argument position of a call: the caller leaves it out or passes a value.\<close>

datatype 'a arg = Omitted | Given 'a

fun bind_arg :: "'a \<Rightarrow> 'a arg \<Rightarrow> 'a" where
  "bind_arg d Omitted = d"
| "bind_arg d (Given v) = v"

section \<open>Operations\<close>

text \<open>
  AUTOINCREMENT: the new id is one more than the largest of the ids in the table and the
  counter of \<open>sqlite_sequence\<close>.
\<close>

definition next_id :: "db \<Rightarrow> int" where
  "next_id s = fold max (map row_id (rows s)) (seq s) + 1"

text \<open>
  \<^verbatim>\<open>add_book(title, author, genre, description, available=1)\<close>: one INSERT. A \<open>None\<close> title or
  author violates NOT NULL: sqlite3 raises IntegrityError and nothing is stored.
\<close>

definition add_book ::
  "db \<Rightarrow> string option \<Rightarrow> string option \<Rightarrow> string option \<Rightarrow> string option \<Rightarrow> int option
     \<Rightarrow> (error + int) \<times> db" where
  "add_book s title' author' genre' description' available' =
     (case title' of
        None \<Rightarrow> (Inl IntegrityError, s)
      | Some t \<Rightarrow>
          (case author' of
             None \<Rightarrow> (Inl IntegrityError, s)
           | Some a \<Rightarrow>
               (let book_id = next_id s;
                    b = \<lparr>row_id = book_id, title = t, author = a, genre = genre',
                         description = description', available = available'\<rparr>
                in (Inr book_id, \<lparr>rows = rows s @ [b], seq = book_id\<rparr>))))"

text \<open>
  A call of \<^verbatim>\<open>add_book\<close>. The signature gives \<open>title\<close>, \<open>author\<close>, \<open>genre\<close> and \<open>description\<close>
  no default value: Python raises TypeError, before the body runs, when the call leaves one of
  them out. Only \<open>available\<close> has a default, 1.
\<close>

definition add_book_call ::
  "db \<Rightarrow> string option arg \<Rightarrow> string option arg \<Rightarrow> string option arg \<Rightarrow> string option arg
     \<Rightarrow> int option arg \<Rightarrow> (error + int) \<times> db" where
  "add_book_call s title' author' genre' description' available' =
     (case title' of
        Omitted \<Rightarrow> (Inl TypeError, s)
      | Given t \<Rightarrow>
          (case author' of
             Omitted \<Rightarrow> (Inl TypeError, s)
           | Given a \<Rightarrow>
               (case genre' of
                  Omitted \<Rightarrow> (Inl TypeError, s)
                | Given g \<Rightarrow>
                    (case description' of
                       Omitted \<Rightarrow> (Inl TypeError, s)
                     | Given d \<Rightarrow> add_book s t a g d (bind_arg (Some 1) available')))))"

definition get_all_books :: "db \<Rightarrow> book list" where
  "get_all_books s = rows s"

text \<open>\<^verbatim>\<open>SELECT * FROM books WHERE id = ?\<close> and \<open>fetchone\<close>: the first matching row, or \<open>None\<close>.\<close>

definition get_book_by_id :: "db \<Rightarrow> int \<Rightarrow> book option" where
  "get_book_by_id s book_id = find (\<lambda>r. row_id r = book_id) (rows s)"

definition get_available_books :: "db \<Rightarrow> book list" where
  "get_available_books s = filter (\<lambda>r. available r = Some 1) (rows s)"

text \<open>
  \<^verbatim>\<open>UPDATE books SET available = ? WHERE id = ?\<close>; \<open>rowcount\<close> is the number of rows the
  WHERE clause matched.
\<close>

definition update_availability :: "db \<Rightarrow> int \<Rightarrow> int option \<Rightarrow> bool \<times> db" where
  "update_availability s book_id available' =
     (let rows_affected = length (filter (\<lambda>r. row_id r = book_id) (rows s))
      in (rows_affected > 0,
          s\<lparr>rows := map (\<lambda>r. if row_id r = book_id then r\<lparr>available := available'\<rparr> else r)
                       (rows s)\<rparr>))"

definition borrow_book :: "db \<Rightarrow> int \<Rightarrow> bool \<times> db" where
  "borrow_book s book_id =
     (case get_book_by_id s book_id of
        None \<Rightarrow> (False, s)
      | Some b \<Rightarrow>
          if available b = Some 0 then (False, s)
          else update_availability s book_id (Some 0))"

definition return_book :: "db \<Rightarrow> int \<Rightarrow> bool \<times> db" where
  "return_book s book_id = update_availability s book_id (Some 1)"

text \<open>\<^verbatim>\<open>DELETE FROM books WHERE id = ?\<close>; the counter of \<open>sqlite_sequence\<close> stays.\<close>

definition delete_book :: "db \<Rightarrow> int \<Rightarrow> bool \<times> db" where
  "delete_book s book_id =
     (let rows_affected = length (filter (\<lambda>r. row_id r = book_id) (rows s))
      in (rows_affected > 0, s\<lparr>rows := filter (\<lambda>r. row_id r \<noteq> book_id) (rows s)\<rparr>))"

text \<open>
  \<^verbatim>\<open>update_book(book_id, title=None, author=None, genre=None, description=None, available=None)\<close>
  collects one \<open>column = ?\<close> clause for every argument that is not \<open>None\<close>, returns False
  when there is none, and otherwise runs \<^verbatim>\<open>UPDATE books SET ... WHERE id = ?\<close> and returns True.
\<close>

datatype assignment =
  SetTitle string
| SetAuthor string
| SetGenre string
| SetDescription string
| SetAvailable int

fun assign :: "assignment \<Rightarrow> book \<Rightarrow> book" where
  "assign (SetTitle v) r = r\<lparr>title := v\<rparr>"
| "assign (SetAuthor v) r = r\<lparr>author := v\<rparr>"
| "assign (SetGenre v) r = r\<lparr>genre := Some v\<rparr>"
| "assign (SetDescription v) r = r\<lparr>description := Some v\<rparr>"
| "assign (SetAvailable v) r = r\<lparr>available := Some v\<rparr>"

definition build_updates ::
  "string option \<Rightarrow> string option \<Rightarrow> string option \<Rightarrow> string option \<Rightarrow> int option
     \<Rightarrow> assignment list" where
  "build_updates title' author' genre' description' available' =
     (case title' of None \<Rightarrow> [] | Some v \<Rightarrow> [SetTitle v])
     @ (case author' of None \<Rightarrow> [] | Some v \<Rightarrow> [SetAuthor v])
     @ (case genre' of None \<Rightarrow> [] | Some v \<Rightarrow> [SetGenre v])
     @ (case description' of None \<Rightarrow> [] | Some v \<Rightarrow> [SetDescription v])
     @ (case available' of None \<Rightarrow> [] | Some v \<Rightarrow> [SetAvailable v])"

definition update_book ::
  "db \<Rightarrow> int \<Rightarrow> string option \<Rightarrow> string option \<Rightarrow> string option \<Rightarrow> string option \<Rightarrow> int option
     \<Rightarrow> bool \<times> db" where
  "update_book s book_id title' author' genre' description' available' =
     (let updates = build_updates title' author' genre' description' available'
      in if updates = [] then (False, s)
         else (True,
               s\<lparr>rows := map (\<lambda>r. if row_id r = book_id then fold assign updates r else r)
                            (rows s)\<rparr>))"

definition update_book_call ::
  "db \<Rightarrow> int \<Rightarrow> string option arg \<Rightarrow> string option arg \<Rightarrow> string option arg
     \<Rightarrow> string option arg \<Rightarrow> int option arg \<Rightarrow> bool \<times> db" where
  "update_book_call s book_id title' author' genre' description' available' =
     update_book s book_id (bind_arg None title') (bind_arg None author') (bind_arg None genre')
       (bind_arg None description') (bind_arg None available')"

section \<open>Searching\<close>

text \<open>
  SQLite's \<open>LIKE\<close>: in the pattern \<open>%\<close> matches any sequence of characters, \<open>_\<close> matches any
  one character, and any other character matches itself, upper and lower case of the ASCII
  letters taken as equal. There is no escape character unless an ESCAPE clause names one.
\<close>

definition lower_char :: "char \<Rightarrow> char" where
  "lower_char c =
     (case map_of (zip ''ABCDEFGHIJKLMNOPQRSTUVWXYZ'' ''abcdefghijklmnopqrstuvwxyz'') c of
        None \<Rightarrow> c
      | Some l \<Rightarrow> l)"

function like :: "string \<Rightarrow> string \<Rightarrow> bool" where
  "like [] s = (s = [])"
| "like (p # ps) [] = (p = CHR ''%'' \<and> like ps [])"
| "like (p # ps) (c # cs) =
     (if p = CHR ''%'' then like ps (c # cs) \<or> like (p # ps) cs
      else (p = CHR ''_'' \<or> lower_char p = lower_char c) \<and> like ps cs)"
  by pat_completeness auto
termination
  by (relation "measure (\<lambda>(p, s). length p + length s)") auto

text \<open>
  \<^verbatim>\<open>search_books\<close>: the pattern is \<^verbatim>\<open>f"%{search_term}%"\<close>, the query
  \<^verbatim>\<open>SELECT * FROM books WHERE title LIKE ? OR author LIKE ?\<close>.
\<close>

definition search_books :: "db \<Rightarrow> string \<Rightarrow> book list" where
  "search_books s search_term =
     (let search_pattern = ''%'' @ search_term @ ''%''
      in filter (\<lambda>r. like search_pattern (title r) \<or> like search_pattern (author r)) (rows s))"

text \<open>
  The specification's reading of a search: the term occurs in the text as a contiguous
  substring, upper and lower case taken as equal.
\<close>

definition contains_ci :: "string \<Rightarrow> string \<Rightarrow> bool" where
  "contains_ci search_term text' = sublist (map lower_char search_term) (map lower_char text')"

text \<open>A search term without the two wildcard characters of \<open>LIKE\<close>.\<close>

definition plain :: "string \<Rightarrow> bool" where
  "plain t = list_all (\<lambda>c. c \<noteq> CHR ''%'' \<and> c \<noteq> CHR ''_'') t"

definition search_spec :: "db \<Rightarrow> string \<Rightarrow> book list" where
  "search_spec s search_term =
     filter (\<lambda>r. contains_ci search_term (title r) \<or> contains_ci search_term (author r)) (rows s)"

section \<open>Sequences of operations\<close>

datatype op =
  Create "string option arg" "string option arg" "string option arg" "string option arg"
    "int option arg"
| Update int "string option arg" "string option arg" "string option arg" "string option arg"
    "int option arg"
| SetAvailability int "int option"
| Borrow int
| Return int
| Delete int

fun apply_op :: "db \<Rightarrow> op \<Rightarrow> db" where
  "apply_op s (Create t a g d v) = snd (add_book_call s t a g d v)"
| "apply_op s (Update i t a g d v) = snd (update_book_call s i t a g d v)"
| "apply_op s (SetAvailability i v) = snd (update_availability s i v)"
| "apply_op s (Borrow i) = snd (borrow_book s i)"
| "apply_op s (Return i) = snd (return_book s i)"
| "apply_op s (Delete i) = snd (delete_book s i)"

definition run :: "op list \<Rightarrow> db \<Rightarrow> db" where
  "run ops s = foldl apply_op s ops"

definition flag_binary :: "book \<Rightarrow> bool" where
  "flag_binary r = (available r = Some 0 \<or> available r = Some 1)"

definition flags_binary :: "db \<Rightarrow> bool" where
  "flags_binary s = list_all flag_binary (rows s)"

text \<open>The operations whose availability argument, where one is passed, is 0 or 1.\<close>

fun flag_arg_ok :: "op \<Rightarrow> bool" where
  "flag_arg_ok (Create t a g d v) = (v = Omitted \<or> v = Given (Some 0) \<or> v = Given (Some 1))"
| "flag_arg_ok (Update i t a g d v) =
     (v = Omitted \<or> v = Given None \<or> v = Given (Some 0) \<or> v = Given (Some 1))"
| "flag_arg_ok (SetAvailability i v) = (v = Some 0 \<or> v = Some 1)"
| "flag_arg_ok (Borrow i) = True"
| "flag_arg_ok (Return i) = True"
| "flag_arg_ok (Delete i) = True"

section \<open>An example store\<close>

text \<open>The store of the demonstration at the end of database.py, after its \<^verbatim>\<open>add_book\<close>.\<close>

definition demo_book :: book where
  "demo_book = \<lparr>row_id = 1, title = ''The Lord of the Rings'', author = ''J.R.R. Tolkien'',
     genre = Some ''Fantasy'', description = Some ''An epic tale of good versus evil'',
     available = Some 1\<rparr>"

definition demo_db :: db where
  "demo_db = \<lparr>rows = [demo_book], seq = 1\<rparr>"

text \<open>The same store after a second book was added and borrowed.\<close>

definition two_books :: db where
  "two_books = \<lparr>rows = [demo_book,
      \<lparr>row_id = 2, title = ''Emma'', author = ''Jane Austen'', genre = None,
        description = None, available = Some 0\<rparr>], seq = 2\<rparr>"

section \<open>Helper lemmas\<close>

lemma find_map_flag:
  "find (\<lambda>r. row_id r = i) (map (\<lambda>r. if row_id r = i then r\<lparr>available := v\<rparr> else r) xs)
     = map_option (\<lambda>r. r\<lparr>available := v\<rparr>) (find (\<lambda>r. row_id r = i) xs)"
  by (induction xs) auto

lemma find_Some_filter_nonempty:
  "find P xs = Some b \<Longrightarrow> 0 < length (filter P xs)"
  by (induction xs) (auto split: if_splits)

lemma find_None_filter_empty:
  "find P xs = None \<longleftrightarrow> filter P xs = []"
  by (induction xs) auto

lemma demo_db_built:
  "add_book_call empty_db (Given (Some ''The Lord of the Rings''))
     (Given (Some ''J.R.R. Tolkien'')) (Given (Some ''Fantasy''))
     (Given (Some ''An epic tale of good versus evil'')) Omitted = (Inr 1, demo_db)"
  by (simp add: add_book_call_def add_book_def next_id_def empty_db_def demo_db_def demo_book_def)

lemma build_updates_Nil:
  "build_updates t a g d v = [] \<longleftrightarrow> t = None \<and> a = None \<and> g = None \<and> d = None \<and> v = None"
  by (auto simp: build_updates_def split: option.splits)

lemma filter_nonempty_find:
  "(filter P xs \<noteq> []) = (\<exists>y. find P xs = Some y)"
  by (induction xs) auto

lemma find_filter_neq: "find (\<lambda>r. row_id r = i) (filter (\<lambda>r. row_id r \<noteq> i) xs) = None"
  by (induction xs) auto

lemma fold_max_ge_init: "(a::int) \<le> fold max xs a"
  by (induction xs arbitrary: a) (auto intro: order_trans [OF max.cobounded2])

lemma fold_max_ge_elem: "x \<in> set xs \<Longrightarrow> (x::int) \<le> fold max xs a"
proof (induction xs arbitrary: a)
  case Nil
  then show ?case by simp
next
  case (Cons y ys)
  show ?case
  proof (cases "x = y")
    case True
    have "y \<le> max y a" by simp
    also have "\<dots> \<le> fold max ys (max y a)" by (rule fold_max_ge_init)
    finally show ?thesis using True by simp
  next
    case False
    with Cons show ?thesis by simp
  qed
qed

lemma next_id_above_seq: "seq s < next_id s"
  using fold_max_ge_init [of "seq s" "map row_id (rows s)"] by (simp add: next_id_def)

lemma next_id_above_rows: "r \<in> set (rows s) \<Longrightarrow> row_id r < next_id s"
  using fold_max_ge_elem [of "row_id r" "map row_id (rows s)" "seq s"] by (simp add: next_id_def)

lemma next_id_unused: "get_book_by_id s (next_id s) = None"
proof -
  have "row_id r \<noteq> next_id s" if "r \<in> set (rows s)" for r
    using next_id_above_rows [OF that] by simp
  then show ?thesis
    by (auto simp: get_book_by_id_def find_None_iff)
qed

lemma find_append_new:
  "find P xs = None \<Longrightarrow> P b \<Longrightarrow> find P (xs @ [b]) = Some b"
  by (induction xs) (auto split: if_splits)

lemma add_book_stored:
  "add_book s (Some t) (Some a) g d v =
     (Inr (next_id s),
      \<lparr>rows = rows s @ [\<lparr>row_id = next_id s, title = t, author = a, genre = g,
                         description = d, available = v\<rparr>],
       seq = next_id s\<rparr>)"
  by (simp add: add_book_def Let_def)

lemma add_book_fetch:
  "get_book_by_id (snd (add_book s (Some t) (Some a) g d v)) (next_id s) =
     Some \<lparr>row_id = next_id s, title = t, author = a, genre = g, description = d,
           available = v\<rparr>"
  using next_id_unused [of s]
  by (simp add: add_book_stored get_book_by_id_def find_append_new)

lemma fold_assign_fields:
  "row_id (fold assign (build_updates t a g d v) r) = row_id r"
  "title (fold assign (build_updates t a g d v) r) = (case t of None \<Rightarrow> title r | Some x \<Rightarrow> x)"
  "author (fold assign (build_updates t a g d v) r) = (case a of None \<Rightarrow> author r | Some x \<Rightarrow> x)"
  "genre (fold assign (build_updates t a g d v) r) = (case g of None \<Rightarrow> genre r | Some x \<Rightarrow> Some x)"
  "description (fold assign (build_updates t a g d v) r) =
     (case d of None \<Rightarrow> description r | Some x \<Rightarrow> Some x)"
  "available (fold assign (build_updates t a g d v) r) =
     (case v of None \<Rightarrow> available r | Some x \<Rightarrow> Some x)"
  by (simp_all add: build_updates_def split: option.splits)

lemma update_book_rows:
  "rows (snd (update_book s i t a g d v)) =
     map (\<lambda>r. if row_id r = i then fold assign (build_updates t a g d v) r else r) (rows s)"
  by (simp add: update_book_def Let_def map_idI)

lemma flags_binary_add_book:
  "flags_binary s \<Longrightarrow> v = Some 0 \<or> v = Some 1 \<Longrightarrow> flags_binary (snd (add_book s t a g d v))"
  by (cases t; cases a)
     (auto simp: add_book_def flags_binary_def flag_binary_def Let_def list_all_iff)

lemma flags_binary_update_availability:
  "flags_binary s \<Longrightarrow> v = Some 0 \<or> v = Some 1
     \<Longrightarrow> flags_binary (snd (update_availability s i v))"
  by (auto simp: update_availability_def flags_binary_def flag_binary_def list_all_iff)

lemma flags_binary_borrow_book:
  "flags_binary s \<Longrightarrow> flags_binary (snd (borrow_book s i))"
  by (simp add: borrow_book_def flags_binary_update_availability split: option.splits)

lemma flags_binary_delete_book:
  "flags_binary s \<Longrightarrow> flags_binary (snd (delete_book s i))"
  by (auto simp: delete_book_def flags_binary_def list_all_iff)

lemma flags_binary_update_book:
  "flags_binary s \<Longrightarrow> v = None \<or> v = Some 0 \<or> v = Some 1
     \<Longrightarrow> flags_binary (snd (update_book s i t a g d v))"
  by (auto simp: flags_binary_def flag_binary_def list_all_iff update_book_rows
      fold_assign_fields)

lemma flags_binary_apply_op:
  "flags_binary s \<Longrightarrow> flag_arg_ok x \<Longrightarrow> flags_binary (apply_op s x)"
proof (cases x)
  case (Create t a g d v)
  assume "flags_binary s" "flag_arg_ok x"
  with Create show ?thesis
    by (auto simp: add_book_call_def intro: flags_binary_add_book split: arg.splits)
next
  case (Update i t a g d v)
  assume "flags_binary s" "flag_arg_ok x"
  with Update show ?thesis
    by (auto simp: update_book_call_def intro: flags_binary_update_book)
next
  case (SetAvailability i v)
  assume "flags_binary s" "flag_arg_ok x"
  with SetAvailability show ?thesis
    by (auto intro: flags_binary_update_availability)
next
  case (Borrow i)
  assume "flags_binary s"
  with Borrow show ?thesis by (simp add: flags_binary_borrow_book)
next
  case (Return i)
  assume "flags_binary s"
  with Return show ?thesis by (simp add: return_book_def flags_binary_update_availability)
next
  case (Delete i)
  assume "flags_binary s"
  with Delete show ?thesis by (simp add: flags_binary_delete_book)
qed

lemma flags_binary_foldl:
  "flags_binary s \<Longrightarrow> list_all flag_arg_ok ops \<Longrightarrow> flags_binary (foldl apply_op s ops)"
  by (induction ops arbitrary: s) (simp_all add: flags_binary_apply_op)

lemma like_percent:
  "like (CHR ''%'' # ps) s \<longleftrightarrow> (\<exists>ys zs. s = ys @ zs \<and> like ps zs)"
proof (induction s)
  case Nil
  then show ?case by simp
next
  case (Cons c cs)
  have "(\<exists>ys zs. c # cs = ys @ zs \<and> like ps zs)
          \<longleftrightarrow> like ps (c # cs) \<or> (\<exists>ys zs. cs = ys @ zs \<and> like ps zs)"
    by (auto simp: Cons_eq_append_conv)
  with Cons show ?case by simp
qed

lemma like_only_percent: "like ''%'' s"
  by (simp add: like_percent)

lemma like_two_percent: "like ''%%'' s"
proof -
  have "s = [] @ s \<and> like ''%'' s"
    by (simp add: like_only_percent)
  then have "\<exists>ys zs. s = ys @ zs \<and> like ''%'' zs"
    by blast
  then show ?thesis
    by (simp only: like_percent)
qed

lemma like_underscore: "s \<noteq> [] \<Longrightarrow> like ''%_%'' s"
proof -
  assume "s \<noteq> []"
  then obtain c cs where s: "s = c # cs"
    by (cases s) auto
  have "like ''_%'' (c # cs)"
    using like_only_percent [of cs] by simp
  then have "\<exists>ys zs. s = ys @ zs \<and> like ''_%'' zs"
    using s by blast
  then show ?thesis
    by (simp only: like_percent)
qed

lemma like_plain_prefix:
  "plain t \<Longrightarrow>
     like (t @ q) s \<longleftrightarrow>
       (\<exists>s1 s2. s = s1 @ s2 \<and> map lower_char s1 = map lower_char t \<and> like q s2)"
proof (induction t arbitrary: s)
  case Nil
  then show ?case by simp
next
  case (Cons p ps)
  then have p: "p \<noteq> CHR ''%''" "p \<noteq> CHR ''_''" and ps: "plain ps"
    by (simp_all add: plain_def)
  show ?case
  proof (cases s)
    case Nil
    with p show ?thesis by simp
  next
    case (Cons c cs)
    have "like ((p # ps) @ q) (c # cs)
            \<longleftrightarrow> lower_char p = lower_char c \<and> like (ps @ q) cs"
      using p by simp
    also have "\<dots> \<longleftrightarrow> lower_char p = lower_char c
        \<and> (\<exists>s1 s2. cs = s1 @ s2 \<and> map lower_char s1 = map lower_char ps \<and> like q s2)"
      using Cons.IH [OF ps] by simp
    also have "\<dots> \<longleftrightarrow> (\<exists>s1 s2. c # cs = s1 @ s2
        \<and> map lower_char s1 = map lower_char (p # ps) \<and> like q s2)"
      (is "?L \<longleftrightarrow> ?R")
    proof
      assume ?L
      then obtain s1 s2 where "lower_char p = lower_char c" "cs = s1 @ s2"
        "map lower_char s1 = map lower_char ps" "like q s2"
        by blast
      then have "c # cs = (c # s1) @ s2
          \<and> map lower_char (c # s1) = map lower_char (p # ps) \<and> like q s2"
        by simp
      then show ?R by blast
    next
      assume ?R
      then obtain s1 s2 where h: "c # cs = s1 @ s2"
        "map lower_char s1 = map lower_char (p # ps)" "like q s2"
        by blast
      from h(2) obtain c' s1' where s1: "s1 = c' # s1'"
        by (cases s1) auto
      with h have "lower_char p = lower_char c \<and> cs = s1' @ s2
          \<and> map lower_char s1' = map lower_char ps \<and> like q s2"
        by auto
      then show ?L by blast
    qed
    finally show ?thesis using Cons by simp
  qed
qed

lemma like_plain_substring:
  assumes "plain t"
  shows "like (''%'' @ t @ ''%'') s \<longleftrightarrow> contains_ci t s"
proof -
  have "like (''%'' @ t @ ''%'') s
          \<longleftrightarrow> (\<exists>ys zs. s = ys @ zs \<and> like (t @ ''%'') zs)"
    by (simp add: like_percent)
  also have "\<dots> \<longleftrightarrow> (\<exists>ys s1 s2. s = ys @ s1 @ s2 \<and> map lower_char s1 = map lower_char t)"
    by (auto simp: like_plain_prefix [OF assms] like_only_percent)
  also have "\<dots> \<longleftrightarrow> contains_ci t s"
    by (auto simp: contains_ci_def sublist_def map_eq_append_conv append_eq_map_conv) metis+
  finally show ?thesis .
qed

lemma two_books_built:
  "run [Create (Given (Some ''Emma'')) (Given (Some ''Jane Austen'')) (Given None) (Given None)
          Omitted,
        Borrow 2] demo_db = two_books"
  by (simp add: run_def add_book_call_def add_book_def next_id_def demo_db_def demo_book_def
      two_books_def borrow_book_def get_book_by_id_def update_availability_def)

section \<open>Borrowing\<close>

text \<open>
  C1. \<^verbatim>\<open>borrow_book\<close> returns false, and changes nothing, when no row has the id; returns
  false and leaves the store as it is when the row's available flag is 0; and when the row's flag is 1 it returns true and
  the row's flag becomes 0, so that a second \<^verbatim>\<open>borrow_book\<close> on the same id returns false and
  changes nothing.
\<close>

theorem borrow_book_cases:
  "(get_book_by_id s i = None \<longrightarrow> borrow_book s i = (False, s))
   \<and> (\<forall>b. get_book_by_id s i = Some b \<and> available b = Some 0
          \<longrightarrow> borrow_book s i = (False, s))
   \<and> (\<forall>b. get_book_by_id s i = Some b \<and> available b = Some 1
          \<longrightarrow> fst (borrow_book s i) = True
              \<and> get_book_by_id (snd (borrow_book s i)) i = Some (b\<lparr>available := Some 0\<rparr>)
              \<and> borrow_book (snd (borrow_book s i)) i = (False, snd (borrow_book s i)))"
proof (intro conjI allI impI)
  assume "get_book_by_id s i = None"
  then show "borrow_book s i = (False, s)"
    by (simp add: borrow_book_def)
next
  fix b assume "get_book_by_id s i = Some b \<and> available b = Some 0"
  then show "borrow_book s i = (False, s)"
    by (simp add: borrow_book_def)
next
  fix b assume h: "get_book_by_id s i = Some b \<and> available b = Some 1"
  then have f: "find (\<lambda>r. row_id r = i) (rows s) = Some b"
    by (simp add: get_book_by_id_def)
  from h have eq: "borrow_book s i = update_availability s i (Some 0)"
    by (simp add: borrow_book_def)
  show "fst (borrow_book s i) = True"
    using find_Some_filter_nonempty [OF f] by (simp add: eq update_availability_def)
  show g: "get_book_by_id (snd (borrow_book s i)) i = Some (b\<lparr>available := Some 0\<rparr>)"
    by (simp add: eq update_availability_def get_book_by_id_def find_map_flag f)
  show "borrow_book (snd (borrow_book s i)) i = (False, snd (borrow_book s i))"
    using g by (simp add: borrow_book_def [of "snd (borrow_book s i)"])
qed

theorem borrow_book_cases_witness:
  "get_book_by_id demo_db 2 = None \<and> borrow_book demo_db 2 = (False, demo_db)
   \<and> get_book_by_id two_books 2 = Some (rows two_books ! 1)
   \<and> available (rows two_books ! 1) = Some 0
   \<and> borrow_book two_books 2 = (False, two_books)
   \<and> get_book_by_id demo_db 1 = Some demo_book \<and> available demo_book = Some 1
   \<and> fst (borrow_book demo_db 1) = True
   \<and> get_book_by_id (snd (borrow_book demo_db 1)) 1 = Some (demo_book\<lparr>available := Some 0\<rparr>)
   \<and> borrow_book (snd (borrow_book demo_db 1)) 1 = (False, snd (borrow_book demo_db 1))"
proof -
  have h1: "get_book_by_id demo_db 2 = None"
    by (simp add: get_book_by_id_def demo_db_def demo_book_def)
  have h2: "get_book_by_id demo_db 1 = Some demo_book \<and> available demo_book = Some 1"
    by (simp add: get_book_by_id_def demo_db_def demo_book_def)
  have h3: "get_book_by_id two_books 2 = Some (rows two_books ! 1)
      \<and> available (rows two_books ! 1) = Some 0"
    by (simp add: get_book_by_id_def two_books_def demo_book_def)
  show ?thesis
    using h1 h2 h3 borrow_book_cases [of demo_db 2] borrow_book_cases [of demo_db 1]
      borrow_book_cases [of two_books 2]
    by simp
qed

section \<open>Returning\<close>

text \<open>
  C6. \<^verbatim>\<open>return_book\<close> returns false if and only if no row has the id (and then the store is
  as it was); when a row has the id it returns true and the row's available flag is 1
  afterwards, whatever the flag was before: there is no check of the current state.
\<close>

theorem return_book_result:
  "(fst (return_book s i) = False \<longleftrightarrow> get_book_by_id s i = None)
   \<and> (get_book_by_id s i = None \<longrightarrow> return_book s i = (False, s))
   \<and> (\<forall>b. get_book_by_id s i = Some b
          \<longrightarrow> fst (return_book s i) = True
              \<and> get_book_by_id (snd (return_book s i)) i = Some (b\<lparr>available := Some 1\<rparr>))"
proof -
  have rc: "fst (return_book s i) = (get_book_by_id s i \<noteq> None)"
    by (simp add: return_book_def update_availability_def get_book_by_id_def
        filter_nonempty_find)
  have unchanged: "return_book s i = (False, s)" if "get_book_by_id s i = None"
  proof -
    from that have "filter (\<lambda>r. row_id r = i) (rows s) = []"
      by (simp add: get_book_by_id_def find_None_filter_empty)
    then have "\<forall>r \<in> set (rows s). row_id r \<noteq> i"
      by (simp add: filter_empty_conv)
    then have "map (\<lambda>r. if row_id r = i then r\<lparr>available := Some 1\<rparr> else r) (rows s) = rows s"
      by (simp add: map_idI)
    with that rc show ?thesis
      by (simp add: return_book_def update_availability_def prod_eq_iff)
  qed
  have fetched: "get_book_by_id (snd (return_book s i)) i = Some (b\<lparr>available := Some 1\<rparr>)"
    if "get_book_by_id s i = Some b" for b
    using that
    by (simp add: return_book_def update_availability_def get_book_by_id_def find_map_flag)
  show ?thesis
    using rc unchanged fetched by auto
qed

theorem return_book_result_witness:
  "get_book_by_id demo_db 2 = None \<and> return_book demo_db 2 = (False, demo_db)
   \<and> get_book_by_id demo_db 1 = Some demo_book \<and> available demo_book = Some 1
   \<and> fst (return_book demo_db 1) = True
   \<and> get_book_by_id (snd (return_book demo_db 1)) 1 = Some (demo_book\<lparr>available := Some 1\<rparr>)"
proof -
  have h1: "get_book_by_id demo_db 2 = None"
    by (simp add: get_book_by_id_def demo_db_def demo_book_def)
  have h2: "get_book_by_id demo_db 1 = Some demo_book \<and> available demo_book = Some 1"
    by (simp add: get_book_by_id_def demo_db_def demo_book_def)
  show ?thesis
    using h1 h2 return_book_result [of demo_db 2] return_book_result [of demo_db 1]
    by simp
qed

section \<open>Partial update\<close>

text \<open>
  C2. \<^verbatim>\<open>update_book\<close> with no field supplied (every argument left out, or every argument
  \<open>None\<close>) returns false and leaves the store as it is; with at least one field supplied it
  returns true, for every store and every id, whether a row has that id or not.
\<close>

theorem update_book_result:
  "update_book_call s i Omitted Omitted Omitted Omitted Omitted = (False, s)
   \<and> (t = None \<and> a = None \<and> g = None \<and> d = None \<and> v = None
        \<longrightarrow> update_book s i t a g d v = (False, s))
   \<and> (t \<noteq> None \<or> a \<noteq> None \<or> g \<noteq> None \<or> d \<noteq> None \<or> v \<noteq> None
        \<longrightarrow> fst (update_book s i t a g d v) = True)"
  by (simp add: update_book_call_def update_book_def Let_def build_updates_Nil)

theorem update_book_result_witness:
  "update_book demo_db 1 None None None None None = (False, demo_db)
   \<and> get_book_by_id demo_db 7 = None
   \<and> fst (update_book demo_db 7 None None (Some ''Epic'') None None) = True
   \<and> fst (update_book demo_db 1 None None None None (Some 0)) = True"
  using update_book_result [of demo_db 1 None None None None None]
    update_book_result [of demo_db 7 None None "Some ''Epic''" None None]
    update_book_result [of demo_db 1 None None None None "Some 0"]
  by (simp add: get_book_by_id_def demo_db_def demo_book_def)

section \<open>Deleting\<close>

text \<open>
  C7. \<^verbatim>\<open>delete_book\<close> returns true if and only if a row with the id was present, and the
  rows that remain are the rows with another id; it returns false, and changes nothing, when
  no row has the id. After a delete \<^verbatim>\<open>get_book_by_id\<close> on the id returns \<open>None\<close> and a second
  \<^verbatim>\<open>delete_book\<close> returns false.
\<close>

theorem delete_book_result:
  "(fst (delete_book s i) = True \<longleftrightarrow> get_book_by_id s i \<noteq> None)
   \<and> rows (snd (delete_book s i)) = filter (\<lambda>r. row_id r \<noteq> i) (rows s)
   \<and> (get_book_by_id s i = None \<longrightarrow> delete_book s i = (False, s))
   \<and> get_book_by_id (snd (delete_book s i)) i = None
   \<and> fst (delete_book (snd (delete_book s i)) i) = False"
proof -
  have rc: "fst (delete_book s i) = (get_book_by_id s i \<noteq> None)" for s
    by (simp add: delete_book_def get_book_by_id_def filter_nonempty_find)
  have gone: "get_book_by_id (snd (delete_book s i)) i = None"
    by (simp add: delete_book_def get_book_by_id_def find_filter_neq)
  have unchanged: "delete_book s i = (False, s)" if "get_book_by_id s i = None"
  proof -
    from that have "filter (\<lambda>r. row_id r = i) (rows s) = []"
      by (simp add: get_book_by_id_def find_None_filter_empty)
    then have "\<forall>r \<in> set (rows s). row_id r \<noteq> i"
      by (simp add: filter_empty_conv)
    then have "filter (\<lambda>r. row_id r \<noteq> i) (rows s) = rows s"
      by simp
    with that rc [of s] show ?thesis
      by (simp add: delete_book_def prod_eq_iff)
  qed
  have again: "fst (delete_book (snd (delete_book s i)) i) = False"
    using rc [of "snd (delete_book s i)"] gone by simp
  show ?thesis
    using rc [of s] gone unchanged again by (simp add: delete_book_def)
qed

theorem delete_book_result_witness:
  "get_book_by_id demo_db 2 = None \<and> delete_book demo_db 2 = (False, demo_db)
   \<and> get_book_by_id demo_db 1 \<noteq> None \<and> fst (delete_book demo_db 1) = True
   \<and> rows (snd (delete_book demo_db 1)) = []
   \<and> get_book_by_id (snd (delete_book demo_db 1)) 1 = None
   \<and> fst (delete_book (snd (delete_book demo_db 1)) 1) = False"
proof -
  have h1: "get_book_by_id demo_db 2 = None"
    by (simp add: get_book_by_id_def demo_db_def demo_book_def)
  have h2: "get_book_by_id demo_db 1 \<noteq> None"
    by (simp add: get_book_by_id_def demo_db_def demo_book_def)
  have h3: "filter (\<lambda>r. row_id r \<noteq> 1) (rows demo_db) = []"
    by (simp add: demo_db_def demo_book_def)
  show ?thesis
    using h1 h2 h3 delete_book_result [of demo_db 2] delete_book_result [of demo_db 1]
    by simp
qed

section \<open>Creating\<close>

text \<open>
  C5. Creating a book by supplying only title and author should succeed, assign a fresh id
  and store a record with available flag 1 and no genre and no description. The docstring of
  \<^verbatim>\<open>add_book\<close> marks \<open>genre\<close> and \<open>description\<close> as optional, and \<^verbatim>\<open>update_book\<close> gives each of
  its optional parameters the default \<open>None\<close>; the signature of \<^verbatim>\<open>add_book\<close> gives the two no
  default. So the call with title and author alone does not create a book: it ends in
  TypeError and the store is as it was.
\<close>

theorem add_book_two_arguments:
  "add_book_call empty_db (Given (Some ''Emma'')) (Given (Some ''Jane Austen''))
     Omitted Omitted Omitted = (Inl TypeError, empty_db)"
  by (simp add: add_book_call_def)

text \<open>
  What the body of \<^verbatim>\<open>add_book\<close> does once \<open>None\<close> is passed for genre and for description and
  the availability is left out: the call succeeds, the id it returns is fresh (no row has it,
  it is larger than every id in the table and than every id assigned before), and the stored
  record has available flag 1 and no genre and no description.
\<close>

lemma add_book_defaults:
  "fst (add_book_call s (Given (Some t)) (Given (Some a)) (Given None) (Given None) Omitted)
     = Inr (next_id s)
   \<and> get_book_by_id s (next_id s) = None
   \<and> list_all (\<lambda>r. row_id r < next_id s) (rows s)
   \<and> seq s < next_id s
   \<and> get_book_by_id
        (snd (add_book_call s (Given (Some t)) (Given (Some a)) (Given None) (Given None) Omitted))
        (next_id s) =
       Some \<lparr>row_id = next_id s, title = t, author = a, genre = None, description = None,
             available = Some 1\<rparr>
   \<and> rows (snd (add_book_call s (Given (Some t)) (Given (Some a)) (Given None) (Given None)
             Omitted)) =
       rows s @ [\<lparr>row_id = next_id s, title = t, author = a, genre = None, description = None,
                  available = Some 1\<rparr>]"
  using add_book_fetch [of s t a None None "Some 1"]
  by (simp add: add_book_call_def next_id_unused next_id_above_seq
      next_id_above_rows list_all_iff add_book_stored)

text \<open>
  C8. Whenever \<^verbatim>\<open>add_book\<close> returns an id, \<^verbatim>\<open>get_book_by_id\<close> on that id in the resulting
  store returns a record whose title, author, genre, description and availability are the
  values passed to \<^verbatim>\<open>add_book\<close> (the default 1 for an availability left out).
\<close>

theorem add_book_roundtrip:
  assumes "add_book_call s t a g d v = (Inr i, s')"
  shows "\<exists>b. get_book_by_id s' i = Some b \<and> row_id b = i \<and> Given (Some (title b)) = t
           \<and> Given (Some (author b)) = a \<and> Given (genre b) = g \<and> Given (description b) = d
           \<and> available b = bind_arg (Some 1) v"
proof -
  from assms obtain t' a' g' d' where ta: "t = Given (Some t')" "a = Given (Some a')"
    "g = Given g'" "d = Given d'"
    by (auto simp: add_book_call_def add_book_def split: arg.splits option.splits)
  from assms have i: "i = next_id s"
    by (auto simp: ta add_book_call_def add_book_stored)
  from assms have s': "s' = snd (add_book s (Some t') (Some a') g' d' (bind_arg (Some 1) v))"
    by (simp add: ta add_book_call_def)
  show ?thesis
    by (simp add: i s' ta add_book_fetch)
qed

theorem add_book_roundtrip_witness:
  "add_book_call empty_db (Given (Some ''The Lord of the Rings''))
     (Given (Some ''J.R.R. Tolkien'')) (Given (Some ''Fantasy''))
     (Given (Some ''An epic tale of good versus evil'')) Omitted = (Inr 1, demo_db)
   \<and> (\<exists>b. get_book_by_id demo_db 1 = Some b \<and> row_id b = 1
          \<and> title b = ''The Lord of the Rings''
          \<and> author b = ''J.R.R. Tolkien'' \<and> genre b = Some ''Fantasy''
          \<and> description b = Some ''An epic tale of good versus evil''
          \<and> available b = Some 1)"
  using add_book_roundtrip [OF demo_db_built] demo_db_built by simp

section \<open>What a partial update leaves alone\<close>

text \<open>
  C9. \<^verbatim>\<open>update_book\<close> changes only the supplied fields of the rows with the given id: the
  table keeps its rows and their ids, every row with another id is as it was, and in every
  row each field whose argument is not supplied (\<open>None\<close>) keeps its value.
\<close>

theorem update_book_frame:
  "length (rows (snd (update_book s i t a g d v))) = length (rows s)
   \<and> seq (snd (update_book s i t a g d v)) = seq s
   \<and> (\<forall>k < length (rows s).
        row_id (rows (snd (update_book s i t a g d v)) ! k) = row_id (rows s ! k)
        \<and> (row_id (rows s ! k) \<noteq> i
             \<longrightarrow> rows (snd (update_book s i t a g d v)) ! k = rows s ! k)
        \<and> (t = None
             \<longrightarrow> title (rows (snd (update_book s i t a g d v)) ! k) = title (rows s ! k))
        \<and> (a = None
             \<longrightarrow> author (rows (snd (update_book s i t a g d v)) ! k) = author (rows s ! k))
        \<and> (g = None
             \<longrightarrow> genre (rows (snd (update_book s i t a g d v)) ! k) = genre (rows s ! k))
        \<and> (d = None
             \<longrightarrow> description (rows (snd (update_book s i t a g d v)) ! k)
                 = description (rows s ! k))
        \<and> (v = None
             \<longrightarrow> available (rows (snd (update_book s i t a g d v)) ! k)
                 = available (rows s ! k)))"
proof -
  have "seq (snd (update_book s i t a g d v)) = seq s"
    by (simp add: update_book_def Let_def)
  then show ?thesis
    by (simp add: update_book_rows fold_assign_fields)
qed

theorem update_book_frame_witness:
  "rows (snd (update_book two_books 2 None None (Some ''Novel'') None (Some 1))) =
     [demo_book,
      \<lparr>row_id = 2, title = ''Emma'', author = ''Jane Austen'', genre = Some ''Novel'',
        description = None, available = Some 1\<rparr>]
   \<and> (0::nat) < length (rows two_books) \<and> row_id (rows two_books ! 0) \<noteq> 2
   \<and> rows (snd (update_book two_books 2 None None (Some ''Novel'') None (Some 1))) ! 0
       = rows two_books ! 0
   \<and> (1::nat) < length (rows two_books)
   \<and> title (rows (snd (update_book two_books 2 None None (Some ''Novel'') None (Some 1))) ! 1)
       = title (rows two_books ! 1)
   \<and> description (rows (snd (update_book two_books 2 None None (Some ''Novel'') None (Some 1))) ! 1)
       = description (rows two_books ! 1)"
proof -
  have r: "rows (snd (update_book two_books 2 None None (Some ''Novel'') None (Some 1))) =
     [demo_book,
      \<lparr>row_id = 2, title = ''Emma'', author = ''Jane Austen'', genre = Some ''Novel'',
        description = None, available = Some 1\<rparr>]"
    by (simp add: update_book_def build_updates_def two_books_def demo_book_def)
  have l: "length (rows two_books) = 2" "row_id (rows two_books ! 0) \<noteq> 2"
    by (simp_all add: two_books_def demo_book_def)
  from update_book_frame [of two_books 2 None None "Some ''Novel''" None "Some 1"]
  have f: "\<forall>k < length (rows two_books).
        (row_id (rows two_books ! k) \<noteq> 2
             \<longrightarrow> rows (snd (update_book two_books 2 None None (Some ''Novel'') None (Some 1))) ! k = rows two_books ! k)
        \<and> title (rows (snd (update_book two_books 2 None None (Some ''Novel'') None (Some 1))) ! k) = title (rows two_books ! k)
        \<and> description (rows (snd (update_book two_books 2 None None (Some ''Novel'') None (Some 1))) ! k) = description (rows two_books ! k)"
    by simp
  from f l have f0: "rows (snd (update_book two_books 2 None None (Some ''Novel'') None (Some 1))) ! 0 = rows two_books ! 0"
    by auto
  from f l have f1: "title (rows (snd (update_book two_books 2 None None (Some ''Novel'') None (Some 1))) ! 1) = title (rows two_books ! 1)
     \<and> description (rows (snd (update_book two_books 2 None None (Some ''Novel'') None (Some 1))) ! 1) = description (rows two_books ! 1)"
    by auto
  show ?thesis using r l f0 f1 by simp
qed

text \<open>
  C10. In \<^verbatim>\<open>update_book\<close> passing \<open>None\<close> for a field is the same as leaving the field out:
  same return value and same resulting store, for each of the five fields. So no call of
  \<^verbatim>\<open>update_book\<close> resets a field to NULL: a genre, description or availability that was
  not NULL before the call is not NULL after it.
\<close>

theorem update_book_none_is_omitted:
  "update_book_call s i (Given None) a g d v = update_book_call s i Omitted a g d v
   \<and> update_book_call s i t (Given None) g d v = update_book_call s i t Omitted g d v
   \<and> update_book_call s i t a (Given None) d v = update_book_call s i t a Omitted d v
   \<and> update_book_call s i t a g (Given None) v = update_book_call s i t a g Omitted v
   \<and> update_book_call s i t a g d (Given None) = update_book_call s i t a g d Omitted
   \<and> length (rows (snd (update_book_call s i t a g d v))) = length (rows s)
   \<and> (\<forall>k < length (rows s).
        (genre (rows s ! k) \<noteq> None
           \<longrightarrow> genre (rows (snd (update_book_call s i t a g d v)) ! k) \<noteq> None)
        \<and> (description (rows s ! k) \<noteq> None
           \<longrightarrow> description (rows (snd (update_book_call s i t a g d v)) ! k) \<noteq> None)
        \<and> (available (rows s ! k) \<noteq> None
           \<longrightarrow> available (rows (snd (update_book_call s i t a g d v)) ! k) \<noteq> None))"
  by (auto simp: update_book_call_def update_book_rows fold_assign_fields split: option.splits)

theorem update_book_none_is_omitted_witness:
  "update_book_call demo_db 1 Omitted Omitted (Given None) Omitted (Given (Some 0))
     = update_book_call demo_db 1 Omitted Omitted Omitted Omitted (Given (Some 0))
   \<and> (0::nat) < length (rows demo_db) \<and> genre (rows demo_db ! 0) \<noteq> None
   \<and> genre (rows (snd (update_book_call demo_db 1 Omitted Omitted (Given None) Omitted
                         (Given (Some 0)))) ! 0) \<noteq> None
   \<and> genre (rows (snd (update_book_call demo_db 1 Omitted Omitted (Given None) Omitted
                         (Given (Some 0)))) ! 0) = Some ''Fantasy''"
proof -
  have l: "(0::nat) < length (rows demo_db)" "genre (rows demo_db ! 0) \<noteq> None"
    by (simp_all add: demo_db_def demo_book_def)
  have e: "genre (rows (snd (update_book_call demo_db 1 Omitted Omitted (Given None) Omitted
                         (Given (Some 0)))) ! 0) = Some ''Fantasy''"
    by (simp add: update_book_call_def update_book_def build_updates_def demo_db_def demo_book_def)
  show ?thesis
    using l e
      update_book_none_is_omitted [where s = demo_db and i = 1 and t = Omitted and a = Omitted
        and g = "Given None" and d = Omitted and v = "Given (Some 0)"]
    by simp
qed

section \<open>The availability flag\<close>

text \<open>
  C3, as stated: after any sequence of operations on an empty store the available field of
  every row is 0 or 1. It fails: \<^verbatim>\<open>add_book\<close> stores the availability it is given, and no
  operation checks the value.
\<close>

theorem available_flag_not_binary:
  "\<not> flags_binary (run [Create (Given (Some ''Emma'')) (Given (Some ''Jane Austen'')) (Given None) (Given None) (Given (Some 2))]
        empty_db)"
  by (simp add: run_def add_book_call_def add_book_def next_id_def empty_db_def
      flags_binary_def flag_binary_def)

text \<open>
  C3, amended: after any sequence of operations on an empty store in which every
  availability passed to \<^verbatim>\<open>add_book\<close>, \<^verbatim>\<open>update_book\<close> or \<^verbatim>\<open>update_availability\<close> is 0 or 1
  (or is left out, or is \<open>None\<close> in \<^verbatim>\<open>update_book\<close>), the available field of every row is
  0 or 1.
\<close>

theorem available_flag_binary:
  "list_all flag_arg_ok ops \<Longrightarrow> flags_binary (run ops empty_db)"
  unfolding run_def
  by (rule flags_binary_foldl) (simp_all add: flags_binary_def empty_db_def)

theorem available_flag_binary_witness:
  "list_all flag_arg_ok
     [Create (Given (Some ''Emma'')) (Given (Some ''Jane Austen'')) (Given None) (Given None) Omitted,
      Borrow 1, Return 1,
      Update 1 Omitted Omitted (Given (Some ''Novel'')) Omitted (Given (Some 0)),
      SetAvailability 1 (Some 1), Delete 2]
   \<and> flags_binary (run
     [Create (Given (Some ''Emma'')) (Given (Some ''Jane Austen'')) (Given None) (Given None) Omitted,
      Borrow 1, Return 1,
      Update 1 Omitted Omitted (Given (Some ''Novel'')) Omitted (Given (Some 0)),
      SetAvailability 1 (Some 1), Delete 2] empty_db)
   \<and> rows (run
     [Create (Given (Some ''Emma'')) (Given (Some ''Jane Austen'')) (Given None) (Given None) Omitted,
      Borrow 1, Return 1,
      Update 1 Omitted Omitted (Given (Some ''Novel'')) Omitted (Given (Some 0)),
      SetAvailability 1 (Some 1), Delete 2] empty_db) =
     [\<lparr>row_id = 1, title = ''Emma'', author = ''Jane Austen'', genre = Some ''Novel'',
        description = None, available = Some 1\<rparr>]"
proof -
  have ok: "list_all flag_arg_ok
     [Create (Given (Some ''Emma'')) (Given (Some ''Jane Austen'')) (Given None) (Given None) Omitted,
      Borrow 1, Return 1,
      Update 1 Omitted Omitted (Given (Some ''Novel'')) Omitted (Given (Some 0)),
      SetAvailability 1 (Some 1), Delete 2]"
    by simp
  have r: "rows (run
     [Create (Given (Some ''Emma'')) (Given (Some ''Jane Austen'')) (Given None) (Given None) Omitted,
      Borrow 1, Return 1,
      Update 1 Omitted Omitted (Given (Some ''Novel'')) Omitted (Given (Some 0)),
      SetAvailability 1 (Some 1), Delete 2] empty_db) =
     [\<lparr>row_id = 1, title = ''Emma'', author = ''Jane Austen'', genre = Some ''Novel'',
        description = None, available = Some 1\<rparr>]"
    by (simp add: run_def add_book_call_def add_book_def next_id_def empty_db_def
        borrow_book_def get_book_by_id_def update_availability_def return_book_def
        update_book_call_def update_book_def build_updates_def delete_book_def)
  show ?thesis
    using ok r available_flag_binary [OF ok] by simp
qed

section \<open>Searching by title or author\<close>

text \<open>
  What \<^verbatim>\<open>search_books\<close> does for a term without \<open>%\<close> and \<open>_\<close>: it returns the rows whose
  title or author contains the term, upper and lower case of the ASCII letters taken as
  equal; for the empty term these are all rows.
\<close>

lemma search_books_plain:
  "plain t \<Longrightarrow> search_books s t = search_spec s t"
  by (simp add: search_books_def search_spec_def like_plain_substring del: append.simps)

lemma search_books_empty: "search_books s '''' = rows s"
  by (simp add: search_books_def like_two_percent del: like.simps)

lemma search_books_tolkien: "search_books demo_db ''tolkien'' = [demo_book]"
  by (simp add: search_books_plain plain_def search_spec_def contains_ci_def demo_db_def
      demo_book_def lower_char_def sublist_code)

text \<open>
  C4. \<^verbatim>\<open>search_books\<close> should return exactly the rows whose title or author contains the term
  as a case-insensitive substring. The term goes into the \<open>LIKE\<close> pattern unescaped, so a
  \<open>_\<close> or \<open>%\<close> in it is a wildcard: the search for \<open>_\<close> returns the book of the example store,
  whose title and author contain no underscore.
\<close>

theorem search_books_wildcard:
  "search_books demo_db ''_'' = [demo_book] \<and> search_spec demo_db ''_'' = []"
proof
  have "like ''%_%'' (title demo_book)"
    by (rule like_underscore) (simp add: demo_book_def)
  then show "search_books demo_db ''_'' = [demo_book]"
    by (simp add: search_books_def demo_db_def del: like.simps)
  show "search_spec demo_db ''_'' = []"
    by (simp add: search_spec_def contains_ci_def demo_db_def demo_book_def
        lower_char_def sublist_code)
qed

end
